theory Spec2Isabelle
  imports Main "HOL-Library.Word"
begin

section \<open>Strings\<close>

text \<open>
  The command system of \<open>assets/js/script.js\<close>: the interpreter \<open>execute\<close> with its
  handler table, and the history store.

  A JavaScript string is a sequence of UTF-16 code units. Literals of the source are
  written \<open>js ''...''\<close> where they are ASCII and as explicit code units elsewhere (the
  source file read as UTF-8).
\<close>

type_synonym jschar = "16 word"
type_synonym jsstring = "jschar list"

definition js :: "string \<Rightarrow> jsstring" where
  "js s = map of_char s"

text \<open>
  The code units that \<open>String.prototype.trim\<close> strips and that the regular expression
  class \<open>\s\<close> matches: the WhiteSpace and LineTerminator productions of ECMAScript
  (TAB, LF, VT, FF, CR, SP, NBSP, the Unicode space separators, LS, PS and U+FEFF).
\<close>

definition is_ws :: "jschar \<Rightarrow> bool" where
  "is_ws c = (c \<in> {0x9, 0xA, 0xB, 0xC, 0xD, 0x20, 0xA0, 0x1680, 0x2028, 0x2029,
                    0x202F, 0x205F, 0x3000, 0xFEFF}
              \<or> (0x2000 \<le> c \<and> c \<le> 0x200A))"

text \<open>\<open>s.trim()\<close>\<close>

definition trim :: "jsstring \<Rightarrow> jsstring" where
  "trim s = rev (dropWhile is_ws (rev (dropWhile is_ws s)))"

text \<open>
  \<open>s.split(/\s+/)\<close>: the pieces of \<open>s\<close> between maximal runs of whitespace. A string
  without whitespace is its own single piece (also the empty string); whitespace at
  either end gives an empty piece there.
\<close>

function split_ws :: "jsstring \<Rightarrow> jsstring list" where
  "split_ws s = (case dropWhile (\<lambda>c. \<not> is_ws c) s of
       [] \<Rightarrow> [s]
     | c # r \<Rightarrow> takeWhile (\<lambda>c. \<not> is_ws c) s # split_ws (dropWhile is_ws r))"
  by pat_completeness auto
termination
proof (relation "measure length")
  fix s :: jsstring and c r
  assume a: "dropWhile (\<lambda>c. \<not> is_ws c) s = c # r"
  have "length (dropWhile is_ws r) \<le> length r"
    by (rule length_dropWhile_le)
  moreover have "length (c # r) \<le> length s"
    using length_dropWhile_le [of "\<lambda>c. \<not> is_ws c" s] a by simp
  ultimately show "(dropWhile is_ws r, s) \<in> measure length"
    by simp
qed simp

declare split_ws.simps [simp del]

text \<open>\<open>parts.join(sep)\<close> on an array of strings\<close>

fun join :: "jsstring \<Rightarrow> jsstring list \<Rightarrow> jsstring" where
  "join sep [] = []"
| "join sep [x] = x"
| "join sep (x # y # ys) = x @ sep @ join sep (y # ys)"

text \<open>\<open>s.padEnd(n)\<close>: pads with spaces up to length \<open>n\<close>, leaves a longer string alone\<close>

definition padEnd :: "nat \<Rightarrow> jsstring \<Rightarrow> jsstring" where
  "padEnd n s = s @ replicate (n - length s) 0x20"

text \<open>\<open>xs.slice(-n)\<close> on an array or a string: its last \<open>n\<close> elements, all of it when shorter\<close>

definition slice_last :: "nat \<Rightarrow> 'a list \<Rightarrow> 'a list" where
  "slice_last n xs = drop (length xs - n) xs"

section \<open>Values\<close>

text \<open>
  The values that flow through the command system. A \<open>number\<close> is an IEEE double:
  \<open>Finite m e\<close> is \<open>m * 2 ^ e\<close>; the code only ever tests one for truth.
  \<open>CommandResult k c\<close> is the object
  \<open>{ type: k, content: c }\<close>. The last five constructors are values that only a
  property inherited from \<open>Object.prototype\<close> can produce (see below).
\<close>

datatype number = NaN | Infinity bool | Finite int int

datatype kind = Info | Success | Error | List | Help

datatype member =
    Constructor | DefineGetter | DefineSetter | HasOwnProperty
  | LookupGetter | LookupSetter | IsPrototypeOf | PropertyIsEnumerable
  | ToString | ValueOf | Proto | ToLocaleString

datatype jsvalue =
    Undefined
  | Null
  | Boolean bool
  | Number number
  | String jsstring
  | Array "jsvalue list"
  | Object "(jsstring \<times> jsvalue) list"
  | is_CommandResult: CommandResult (type: kind) (content: jsvalue)
  | StringObject jsstring
  | Builtin member
  | ProtoGetter
  | ProtoSetter
  | Commands

text \<open>\<open>ToBoolean\<close>, as used by \<open>if (v)\<close> and \<open>v || w\<close>\<close>

fun truthy :: "jsvalue \<Rightarrow> bool" where
  "truthy Undefined = False"
| "truthy Null = False"
| "truthy (Boolean b) = b"
| "truthy (String s) = (s \<noteq> [])"
| "truthy (Number NaN) = False"
| "truthy (Number (Finite m e)) = (m \<noteq> 0)"
| "truthy v = True"

text \<open>
  A call either returns a value or throws. \<open>Throws m\<close> is a thrown \<open>Error\<close> object whose
  \<open>message\<close> is the string \<open>m\<close>.
\<close>

datatype 'a outcome = Throws jsstring | Returns 'a

section \<open>The host environment\<close>

text \<open>
  What the browser provides and the repository does not define. The page effects of the
  handlers and the accesses to \<open>localStorage\<close> are calls into the host; a call may
  complete or throw.
\<close>

datatype host_call =
    ClearHistoryElement
  | WindowOpen jsstring
  | SetLocationHref jsstring
  | CloseTerminal
  | GetItem jsstring
  | SetItem jsstring jsstring

record host =
  toLowerCase :: "jsstring \<Rightarrow> jsstring"
  TypeError_message :: "jsstring \<Rightarrow> jsstring"
  fault :: "host_call \<Rightarrow> jsstring option"
  JSON_parse :: "jsstring \<Rightarrow> jsvalue option"
  JSON_stringify :: "jsvalue \<Rightarrow> jsstring"

text \<open>
  \<^item> \<open>toLowerCase\<close> is \<open>String.prototype.toLowerCase\<close>, the Unicode case mapping; nothing
    is assumed of it.
  \<^item> \<open>TypeError_message\<close> is the wording the engine gives a \<open>TypeError\<close> it raises at the
    named expression.
  \<^item> \<open>fault c\<close> is the message of the error that the host call \<open>c\<close> throws, \<open>None\<close> when the
    call completes.
  \<^item> \<open>JSON_parse\<close> is \<open>JSON.parse\<close>, \<open>None\<close> for a \<open>SyntaxError\<close>; \<open>JSON_stringify\<close> is
    \<open>JSON.stringify\<close>.
\<close>

definition host_do :: "host \<Rightarrow> host_call \<Rightarrow> 'a outcome \<Rightarrow> 'a outcome" where
  "host_do h c k = (case fault h c of Some m \<Rightarrow> Throws m | None \<Rightarrow> k)"

section \<open>Configuration and constants\<close>

definition maxHistoryItems :: nat where
  "maxHistoryItems = 50"

definition storageKey :: jsstring where
  "storageKey = js ''terminal-history''"

definition about_txt :: jsstring where
  "about_txt = js ''NAME:        Subash Aryal\<newline>ROLE:        DevOps Engineer\<newline>LOCATION:    Nepal\<newline>EMAIL:       aryalsubash07@gmail.com\<newline>\<newline>DESCRIPTION:\<newline>Dedicated DevOps engineer with strong hands-on skills in automation,\<newline>cloud, and container orchestration. Passionate about designing stable,\<newline>scalable systems and simplifying complex infrastructure.''"

definition experience_log :: jsstring where
  "experience_log =
     js ''[2024-Present] DevOps Engineer\<newline>Infrastructure & Automation\<newline>\<newline>Responsibilities:\<newline>  '' @
     [0x201A, 0xC4, 0xA2] @
     js '' Design and implement scalable containerized infrastructure\<newline>  '' @
     [0x201A, 0xC4, 0xA2] @
     js '' Automate CI/CD pipelines to streamline workflows\<newline>  '' @
     [0x201A, 0xC4, 0xA2] @
     js '' Manage cloud infrastructure on AWS\<newline>  '' @
     [0x201A, 0xC4, 0xA2] @
     js '' Implement monitoring solutions (Prometheus, Grafana)\<newline>  '' @
     [0x201A, 0xC4, 0xA2] @
     js '' Configure infrastructure as code using Ansible''"

definition README_md :: jsstring where
  "README_md = js ''# Subash Aryal - DevOps Engineer Portfolio\<newline>\<newline>Welcome to my terminal portfolio!\<newline>\<newline>Quick Navigation:\<newline>- Scroll down to explore sections\<newline>- Use the command input at the bottom\<newline>- Try typing 'help' for available commands\<newline>\<newline>Contact:\<newline>Email: aryalsubash07@gmail.com\<newline>GitHub: https://github.com/aryalsubash07\<newline>LinkedIn: https://linkedin.com/in/aryalsubash07''"

text \<open>The own properties of the object literal \<open>FILE_CONTENT\<close> (lines 48 to 80)\<close>

definition FILE_CONTENT :: "jsstring \<rightharpoonup> jsstring" where
  "FILE_CONTENT = map_of
     [(js ''about.txt'', about_txt),
      (js ''experience.log'', experience_log),
      (js ''README.md'', README_md)]"

definition FILE_LIST :: "jsstring list" where
  "FILE_LIST = [js ''about.txt'', js ''experience.log'', js ''skills/'', js ''projects/'',
                js ''contact.sh'', js ''README.md'']"

definition LINKS_github :: jsstring where
  "LINKS_github = js ''https://github.com/aryalsubash07''"

definition LINKS_linkedin :: jsstring where
  "LINKS_linkedin = js ''https://linkedin.com/in/aryalsubash07''"

definition LINKS_email :: jsstring where
  "LINKS_email = js ''aryalsubash07@gmail.com''"

section \<open>Property reads on object literals\<close>

text \<open>
  \<open>FILE_CONTENT\<close> and \<open>commands\<close> are object literals, so their prototype is
  \<open>Object.prototype\<close>, and \<open>obj[name]\<close> answers with an own property when there is one
  and with the property of \<open>Object.prototype\<close> of that name otherwise. These are the
  properties of \<open>Object.prototype\<close>.
\<close>

definition Object_prototype :: "(jsstring \<times> member) list" where
  "Object_prototype =
     [(js ''constructor'', Constructor),
      (js ''__defineGetter__'', DefineGetter),
      (js ''__defineSetter__'', DefineSetter),
      (js ''hasOwnProperty'', HasOwnProperty),
      (js ''__lookupGetter__'', LookupGetter),
      (js ''__lookupSetter__'', LookupSetter),
      (js ''isPrototypeOf'', IsPrototypeOf),
      (js ''propertyIsEnumerable'', PropertyIsEnumerable),
      (js ''toString'', ToString),
      (js ''valueOf'', ValueOf),
      (js ''__proto__'', Proto),
      (js ''toLocaleString'', ToLocaleString)]"

datatype 'a property = Own 'a | Inherited member | Absent

definition get_property :: "(jsstring \<rightharpoonup> 'a) \<Rightarrow> jsstring \<Rightarrow> 'a property" where
  "get_property obj name =
     (case obj name of
        Some v \<Rightarrow> Own v
      | None \<Rightarrow> (case map_of Object_prototype name of
                   Some m \<Rightarrow> Inherited m
                 | None \<Rightarrow> Absent))"

section \<open>Command handlers\<close>

text \<open>
  The handlers of \<open>CommandSystem.commands\<close> (lines 236 to 321). A handler is called with
  one argument (\<open>Undefined\<close> when the call passes none) and returns a value or throws.
\<close>

type_synonym handler = "jsvalue \<Rightarrow> jsvalue outcome"

definition formatCommand :: "jsstring \<Rightarrow> jsstring \<Rightarrow> jsstring" where
  "formatCommand cmd desc = js ''  '' @ padEnd 18 cmd @ js '' '' @ desc"

definition "help" :: handler where
  "help args = Returns (CommandResult Help (String (
     js ''Available commands:\<newline>\<newline>'' @
     formatCommand (js ''help'') (js ''Show this help'') @ js ''\<newline>'' @
     formatCommand (js ''clear'') (js ''Clear terminal'') @ js ''\<newline>'' @
     formatCommand (js ''whoami'') (js ''User information'') @ js ''\<newline>'' @
     formatCommand (js ''ls'') (js ''List files'') @ js ''\<newline>'' @
     formatCommand (js ''cat <file>'') (js ''Read file'') @ js ''\<newline>'' @
     formatCommand (js ''contact'') (js ''Contact info'') @ js ''\<newline>'' @
     formatCommand (js ''github'') (js ''Open GitHub'') @ js ''\<newline>'' @
     formatCommand (js ''linkedin'') (js ''Open LinkedIn'') @ js ''\<newline>'' @
     formatCommand (js ''email'') (js ''Send email'') @ js ''\<newline>'' @
     formatCommand (js '':q'') (js ''Close terminal''))))"

definition clear :: "host \<Rightarrow> handler" where
  "clear h args = host_do h ClearHistoryElement
     (Returns (CommandResult Success (String (js ''Terminal cleared.''))))"

text \<open>The ruled line of the source: forty times the same three code units.\<close>

definition rule_line :: jsstring where
  "rule_line = concat (replicate 40 [0x201A, 0xEE, 0xC5])"

definition whoami :: handler where
  "whoami args = Returns (CommandResult Info (String (
     js ''subash aryal\<newline>'' @ rule_line @
     js ''\<newline>role:     DevOps Engineer\<newline>location: Nepal\<newline>email:    '' @ LINKS_email)))"

definition endsWith_slash :: "jsstring \<Rightarrow> bool" where
  "endsWith_slash file = (file \<noteq> [] \<and> last file = 0x2F)"

definition ls :: handler where
  "ls args = Returns (CommandResult List (String (join (js ''\<newline>'')
     (map (\<lambda>file. (if endsWith_slash file then [0xF8FF, 0xFC, 0xEC, 0xC5]
                     else [0xF8FF, 0xFC, 0xEC, 0xD1]) @ js ''  '' @ file)
        FILE_LIST))))"

text \<open>
  \<open>cat\<close> reads \<open>args.trim()\<close>, which throws a \<open>TypeError\<close> unless \<open>args\<close> is a string,
  and then \<open>FILE_CONTENT[file]\<close>, tested for truth.
\<close>

definition cat :: "host \<Rightarrow> handler" where
  "cat h args =
     (case (case args of String a \<Rightarrow> Some a | StringObject a \<Rightarrow> Some a | _ \<Rightarrow> None) of
        None \<Rightarrow> Throws (TypeError_message h (js ''args.trim''))
      | Some a \<Rightarrow>
          (let file = trim a;
               not_found = Returns (CommandResult Error (String
                 (js ''cat: '' @ file @ js '': No such file or directory'')))
           in case get_property FILE_CONTENT file of
                Own text \<Rightarrow>
                  if text \<noteq> [] then Returns (CommandResult Info (String text))
                  else not_found
              | Inherited m \<Rightarrow> Returns (CommandResult Info (Builtin m))
              | Absent \<Rightarrow> not_found))"

definition contact :: handler where
  "contact args = Returns (CommandResult Info (String (
     js ''CONTACT INFORMATION\<newline>'' @ rule_line @
     js ''\<newline>\<newline>Email:    '' @ LINKS_email @
     js ''\<newline>GitHub:   '' @ LINKS_github @
     js ''\<newline>LinkedIn: '' @ LINKS_linkedin @
     js ''\<newline>Location: Nepal\<newline>\<newline>I'm always open to discussing new opportunities, interesting projects,\<newline>or conversations about DevOps, cloud infrastructure, and automation.'')))"

definition github :: "host \<Rightarrow> handler" where
  "github h args = host_do h (WindowOpen LINKS_github)
     (Returns (CommandResult Success (String (js ''Opening GitHub profile...''))))"

definition linkedin :: "host \<Rightarrow> handler" where
  "linkedin h args = host_do h (WindowOpen LINKS_linkedin)
     (Returns (CommandResult Success (String (js ''Opening LinkedIn profile...''))))"

definition email :: "host \<Rightarrow> handler" where
  "email h args =
     host_do h (SetLocationHref (js ''mailto:'' @ LINKS_email @ js ''?subject=Portfolio%20Inquiry''))
       (Returns (CommandResult Success (String (js ''Opening email client...''))))"

definition quit :: "host \<Rightarrow> handler" where
  "quit h args = host_do h CloseTerminal
     (Returns (CommandResult Info (String (js ''Terminal closed. Press ` or ~ to reopen.''))))"

text \<open>The own properties of \<open>CommandSystem.commands\<close>\<close>

definition commands :: "host \<Rightarrow> jsstring \<rightharpoonup> handler" where
  "commands h = map_of
     [(js ''help'', help),
      (js ''clear'', clear h),
      (js ''whoami'', whoami),
      (js ''ls'', ls),
      (js ''cat'', cat h),
      (js ''contact'', contact),
      (js ''github'', github h),
      (js ''linkedin'', linkedin h),
      (js ''email'', email h),
      (js '':q'', quit h)]"

section \<open>The interpreter\<close>

text \<open>
  What \<open>this.commands[cmd](args)\<close> does when \<open>this.commands[cmd]\<close> is a property inherited
  from \<open>Object.prototype\<close>: the call has the commands object as \<open>this\<close> and the string
  \<open>args\<close> as its only argument. \<open>Object(args)\<close> wraps the string in a \<open>String\<close> object;
  \<open>__defineGetter__\<close> and \<open>__defineSetter__\<close> reject the missing function; the value of
  \<open>__proto__\<close> is \<open>Object.prototype\<close> itself, which is not callable.
\<close>

fun call_member :: "host \<Rightarrow> (jsstring \<rightharpoonup> handler) \<Rightarrow> member \<Rightarrow> jsstring \<Rightarrow> jsvalue outcome" where
  "call_member h own Constructor args = Returns (StringObject args)"
| "call_member h own ToString args = Returns (String (js ''[object Object]''))"
| "call_member h own ToLocaleString args = Returns (String (js ''[object Object]''))"
| "call_member h own ValueOf args = Returns Commands"
| "call_member h own HasOwnProperty args = Returns (Boolean (own args \<noteq> None))"
| "call_member h own PropertyIsEnumerable args = Returns (Boolean (own args \<noteq> None))"
| "call_member h own IsPrototypeOf args = Returns (Boolean False)"
| "call_member h own DefineGetter args = Throws (TypeError_message h (js ''__defineGetter__''))"
| "call_member h own DefineSetter args = Throws (TypeError_message h (js ''__defineSetter__''))"
| "call_member h own LookupGetter args =
     Returns (if own args = None \<and> args = js ''__proto__'' then ProtoGetter else Undefined)"
| "call_member h own LookupSetter args =
     Returns (if own args = None \<and> args = js ''__proto__'' then ProtoSetter else Undefined)"
| "call_member h own Proto args = Throws (TypeError_message h (js ''this.commands[cmd]''))"

text \<open>
  The \<open>try\<close> block of \<open>execute\<close>: \<open>return result || { type: 'info', content: '' }\<close>, and
  the \<open>catch\<close> that turns a thrown error into a result.
\<close>

definition try_catch :: "jsvalue outcome \<Rightarrow> jsvalue outcome" where
  "try_catch r =
     (case r of
        Returns result \<Rightarrow>
          Returns (if truthy result then result else CommandResult Info (String []))
      | Throws message \<Rightarrow>
          Returns (CommandResult Error (String (js ''Error: '' @ message))))"

text \<open>
  \<open>CommandSystem.execute(input)\<close> (lines 328 to 353), with \<open>this.commands\<close> as a
  parameter. A string split at whitespace is never an empty array; were it one,
  \<open>parts[0]\<close> would be \<open>undefined\<close> and the call on it a \<open>TypeError\<close>. The vi-style quit
  is called outside the \<open>try\<close> block and without an argument; \<open>:q\<close> is no property of
  \<open>Object.prototype\<close>, so only an own property can answer there.
\<close>

definition execute :: "host \<Rightarrow> (jsstring \<rightharpoonup> handler) \<Rightarrow> jsstring \<Rightarrow> jsvalue outcome" where
  "execute h cmds input =
     (let trimmed = trim input in
      if trimmed = [] then Returns Null
      else
        (case split_ws trimmed of
           [] \<Rightarrow> Throws (TypeError_message h (js ''parts[0].toLowerCase''))
         | p # ps \<Rightarrow>
             (let cmd = toLowerCase h p;
                  args = join (js '' '') ps
              in if trimmed = js '':q'' \<or> cmd = js '':q'' then
                   (case cmds (js '':q'') of
                      Some f \<Rightarrow> f Undefined
                    | None \<Rightarrow> Throws (TypeError_message h (js ''this.commands[:q]'')))
                 else
                   (case get_property cmds cmd of
                      Own f \<Rightarrow> try_catch (f (String args))
                    | Inherited m \<Rightarrow> try_catch (call_member h cmds m args)
                    | Absent \<Rightarrow>
                        Returns (CommandResult Error (String
                          (js ''Command not found: '' @ cmd @
                           js ''. Type 'help' for available commands.'')))))))"

section \<open>The history store\<close>

text \<open>
  The fields \<open>history\<close> and \<open>historyIndex\<close> of \<open>CommandSystem\<close> and the text stored in
  \<open>localStorage\<close> under \<open>terminal-history\<close> (lines 144 to 221). \<open>this.history\<close> is an
  array, except that \<open>loadHistory\<close> makes it a string when the stored text is the JSON of
  a string, whose \<open>slice\<close> is a string again.
\<close>

datatype hist = Arr "jsvalue list" | Str jsstring

record state =
  history :: hist
  historyIndex :: int
  localStorage :: "jsstring option"

text \<open>\<open>this.history.length\<close>, the elements, and \<open>this.history[i]\<close>\<close>

fun hist_length :: "hist \<Rightarrow> int" where
  "hist_length (Arr xs) = int (length xs)"
| "hist_length (Str t) = int (length t)"

fun hist_items :: "hist \<Rightarrow> jsvalue list" where
  "hist_items (Arr xs) = xs"
| "hist_items (Str t) = map (\<lambda>c. String [c]) t"

definition hist_at :: "hist \<Rightarrow> int \<Rightarrow> jsvalue" where
  "hist_at hs i =
     (if 0 \<le> i \<and> i < hist_length hs then hist_items hs ! nat i else Undefined)"

fun hist_value :: "hist \<Rightarrow> jsvalue" where
  "hist_value (Arr xs) = Array xs"
| "hist_value (Str t) = String t"

text \<open>The object literal \<open>CommandSystem\<close> before \<open>init\<close>, over a given stored text.\<close>

definition CommandSystem :: "jsstring option \<Rightarrow> state" where
  "CommandSystem stored = \<lparr>history = Arr [], historyIndex = - 1, localStorage = stored\<rparr>"

text \<open>
  \<open>loadHistory\<close>: \<open>getItem\<close> gives \<open>null\<close> or a string; the empty string is false. Every
  throw inside the \<open>try\<close> (a refused read, a \<open>SyntaxError\<close>, a value without a callable
  \<open>slice\<close>) ends in the \<open>catch\<close>.
\<close>

definition loadHistory :: "host \<Rightarrow> state \<Rightarrow> state" where
  "loadHistory h s =
     (case fault h (GetItem storageKey) of
        Some m \<Rightarrow> s\<lparr>history := Arr []\<rparr>
      | None \<Rightarrow>
          (case localStorage s of
             None \<Rightarrow> s
           | Some saved \<Rightarrow>
               if saved = [] then s
               else
                 (case JSON_parse h saved of
                    None \<Rightarrow> s\<lparr>history := Arr []\<rparr>
                  | Some (Array xs) \<Rightarrow> s\<lparr>history := Arr (slice_last maxHistoryItems xs)\<rparr>
                  | Some (String t) \<Rightarrow> s\<lparr>history := Str (slice_last maxHistoryItems t)\<rparr>
                  | Some (StringObject t) \<Rightarrow> s\<lparr>history := Str (slice_last maxHistoryItems t)\<rparr>
                  | Some _ \<Rightarrow> s\<lparr>history := Arr []\<rparr>)))"

definition init :: "host \<Rightarrow> state \<Rightarrow> state" where
  "init h s = (let s1 = loadHistory h s in s1\<lparr>historyIndex := hist_length (history s1)\<rparr>)"

definition saveHistory :: "host \<Rightarrow> state \<Rightarrow> state" where
  "saveHistory h s =
     (let text = JSON_stringify h (hist_value (history s)) in
      case fault h (SetItem storageKey text) of
        Some m \<Rightarrow> s
      | None \<Rightarrow> s\<lparr>localStorage := Some text\<rparr>)"

text \<open>
  \<open>addToHistory\<close> returns nothing; the outcome says whether it threw. A string has no
  \<open>push\<close>, so on a string history the call throws before it changes anything.
\<close>

definition addToHistory :: "host \<Rightarrow> jsstring \<Rightarrow> state \<Rightarrow> unit outcome \<times> state" where
  "addToHistory h command s =
     (let trimmed = trim command in
      if trimmed = [] then (Returns (), s)
      else
        (case history s of
           Str t \<Rightarrow> (Throws (TypeError_message h (js ''this.history.push'')), s)
         | Arr xs \<Rightarrow>
             (let pushed = xs @ [String trimmed];
                  kept = (if length pushed > maxHistoryItems then tl pushed else pushed);
                  s1 = s\<lparr>history := Arr kept\<rparr>;
                  s2 = s1\<lparr>historyIndex := hist_length (history s1)\<rparr>
              in (Returns (), saveHistory h s2))))"

definition getPrevious :: "state \<Rightarrow> jsvalue \<times> state" where
  "getPrevious s =
     (if historyIndex s > 0 then
        (let s1 = s\<lparr>historyIndex := historyIndex s - 1\<rparr>
         in (hist_at (history s1) (historyIndex s1), s1))
      else (String [], s))"

definition getNext :: "state \<Rightarrow> jsvalue \<times> state" where
  "getNext s =
     (if historyIndex s < hist_length (history s) - 1 then
        (let s1 = s\<lparr>historyIndex := historyIndex s + 1\<rparr>
         in (hist_at (history s1) (historyIndex s1), s1))
      else (String [], s\<lparr>historyIndex := hist_length (history s)\<rparr>))"

section \<open>A host for concrete evaluation\<close>

text \<open>
  A host in which no call throws. Its \<open>toLowerCase\<close> maps the letters A to Z and leaves
  every other code unit alone, as the real one does on ASCII text; its JSON functions are
  placeholders, replaced where an evaluation depends on them.
\<close>

definition ascii_lower :: "jschar \<Rightarrow> jschar" where
  "ascii_lower c = (if 0x41 \<le> c \<and> c \<le> 0x5A then c + 0x20 else c)"

definition test_host :: host where
  "test_host = \<lparr>toLowerCase = map ascii_lower,
                 TypeError_message = (\<lambda>e. e @ js '' is not a function''),
                 fault = (\<lambda>c. None),
                 JSON_parse = (\<lambda>t. None),
                 JSON_stringify = (\<lambda>v. [])\<rparr>"

text \<open>The same host, except that every host call throws an error with message \<open>blocked\<close>.\<close>

definition failing_host :: host where
  "failing_host = test_host\<lparr>fault := (\<lambda>c. Some (js ''blocked''))\<rparr>"

section \<open>Notions of the specification\<close>

text \<open>
  The first whitespace-delimited token of a line, and whatever remains after it once the
  delimiting whitespace is dropped.
\<close>

definition first_token :: "jsstring \<Rightarrow> jsstring" where
  "first_token t = takeWhile (\<lambda>c. \<not> is_ws c) t"

definition rest_after_first_token :: "jsstring \<Rightarrow> jsstring" where
  "rest_after_first_token t = dropWhile is_ws (dropWhile (\<lambda>c. \<not> is_ws c) t)"

text \<open>A string with every maximal run of whitespace replaced by one space.\<close>

function collapse_ws :: "jsstring \<Rightarrow> jsstring" where
  "collapse_ws [] = []"
| "collapse_ws (c # cs) =
     (if is_ws c then 0x20 # collapse_ws (dropWhile is_ws cs) else c # collapse_ws cs)"
  by pat_completeness auto
termination
  by (relation "measure length") (auto simp: less_Suc_eq_le length_dropWhile_le)

text \<open>The cursor invariant of the history store.\<close>

definition cursor_in_range :: "state \<Rightarrow> bool" where
  "cursor_in_range s = (0 \<le> historyIndex s \<and> historyIndex s \<le> hist_length (history s))"

text \<open>A history entry that is a non-empty string with no whitespace at either end.\<close>

fun trimmed_entry :: "jsvalue \<Rightarrow> bool" where
  "trimmed_entry (String t) = (t \<noteq> [] \<and> \<not> is_ws (hd t) \<and> \<not> is_ws (last t))"
| "trimmed_entry v = False"

text \<open>
  A sequence of submissions, one call of \<open>addToHistory\<close> after the other, and the entries
  that the inputs of such a sequence give: each input trimmed, those empty after trimming
  left out.
\<close>

fun addToHistory_all :: "host \<Rightarrow> jsstring list \<Rightarrow> state \<Rightarrow> state" where
  "addToHistory_all h [] s = s"
| "addToHistory_all h (c # cs) s = addToHistory_all h cs (snd (addToHistory h c s))"

definition stored_entries :: "jsstring list \<Rightarrow> jsvalue list" where
  "stored_entries cs = map String (filter (\<lambda>t. t \<noteq> []) (map trim cs))"

section \<open>Sample states\<close>

text \<open>A state with two entries and the cursor on the second.\<close>

definition sample_state :: state where
  "sample_state = \<lparr>history = Arr [String (js ''help''), String (js ''ls'')],
                    historyIndex = 1, localStorage = None\<rparr>"

text \<open>
  A state whose history is at the maximum, over a store holding some text, and a host that
  parses every stored text as an array of fifty-one entries.
\<close>

definition full_state :: state where
  "full_state = \<lparr>history = Arr (String (js ''0'') # replicate 49 (String (js ''ls''))),
                  historyIndex = 50, localStorage = Some (js ''saved'')\<rparr>"

definition long_host :: host where
  "long_host = test_host\<lparr>JSON_parse :=
     (\<lambda>t. Some (Array (String (js ''0'') # replicate 50 (String (js ''ls'')))))\<rparr>"

text \<open>
  A host that parses every stored text as an array of an untrimmed string, a number and
  the empty string; and a state whose history is a string.
\<close>

definition stale_host :: host where
  "stale_host = test_host\<lparr>JSON_parse :=
     (\<lambda>t. Some (Array [String (js '' x ''), Number (Finite 5 0), String []]))\<rparr>"

definition string_state :: state where
  "string_state = \<lparr>history = Str (js ''abc''), historyIndex = 3, localStorage = None\<rparr>"

section \<open>The tokenizer\<close>

lemma split_ws_no_ws:
  "dropWhile (\<lambda>c. \<not> is_ws c) s = [] \<Longrightarrow> split_ws s = [s]"
  by (subst split_ws.simps) (simp del: dropWhile_eq_Nil_conv)

lemma split_ws_ws:
  "dropWhile (\<lambda>c. \<not> is_ws c) s = c # r \<Longrightarrow>
   split_ws s = takeWhile (\<lambda>c. \<not> is_ws c) s # split_ws (dropWhile is_ws r)"
  by (subst split_ws.simps) simp

lemma split_ws_not_Nil: "split_ws s \<noteq> []"
  by (cases "dropWhile (\<lambda>c. \<not> is_ws c) s") (simp_all add: split_ws_no_ws split_ws_ws del: dropWhile_eq_Nil_conv)

lemma split_ws_hd: "hd (split_ws s) = first_token s"
proof (cases "dropWhile (\<lambda>c. \<not> is_ws c) s")
  case Nil
  have "first_token s = s"
    unfolding first_token_def using Nil takeWhile_dropWhile_id [of "\<lambda>c. \<not> is_ws c" s]
    by (metis append_Nil2)
  then show ?thesis by (simp add: split_ws_no_ws [OF Nil])
next
  case (Cons c r)
  then show ?thesis by (simp add: split_ws_ws first_token_def)
qed

lemma collapse_ws_no_ws: "\<forall>c \<in> set a. \<not> is_ws c \<Longrightarrow> collapse_ws (a @ b) = a @ collapse_ws b"
  by (induction a) auto

lemma join_Cons: "ys \<noteq> [] \<Longrightarrow> join sep (x # ys) = x @ sep @ join sep ys"
  by (cases ys) auto

lemma join_split_ws: "join [0x20] (split_ws u) = collapse_ws u"
proof (induction u rule: split_ws.induct)
  case (1 s)
  show ?case
  proof (cases "dropWhile (\<lambda>c. \<not> is_ws c) s")
    case Nil
    then have "\<forall>c \<in> set s. \<not> is_ws c" by (simp add: dropWhile_eq_Nil_conv)
    then have "collapse_ws (s @ []) = s @ collapse_ws []" by (rule collapse_ws_no_ws)
    then show ?thesis by (simp add: split_ws_no_ws [OF Nil])
  next
    case (Cons c r)
    have ws: "is_ws c" using Cons hd_dropWhile [of "\<lambda>c. \<not> is_ws c" s] by auto
    have s: "s = takeWhile (\<lambda>c. \<not> is_ws c) s @ c # r"
      using Cons takeWhile_dropWhile_id [of "\<lambda>c. \<not> is_ws c" s] by simp
    have "collapse_ws s = takeWhile (\<lambda>c. \<not> is_ws c) s @ collapse_ws (c # r)"
      by (subst s, rule collapse_ws_no_ws) (auto dest: set_takeWhileD)
    also have "collapse_ws (c # r) = 0x20 # collapse_ws (dropWhile is_ws r)"
      using ws by simp
    finally have "collapse_ws s = takeWhile (\<lambda>c. \<not> is_ws c) s @ [0x20] @ join [0x20] (split_ws (dropWhile is_ws r))"
      using 1 [OF Cons] by simp
    then show ?thesis
      by (simp add: split_ws_ws [OF Cons] join_Cons split_ws_not_Nil)
  qed
qed

lemma tl_split_ws: "join [0x20] (tl (split_ws t)) = collapse_ws (rest_after_first_token t)"
proof (cases "dropWhile (\<lambda>c. \<not> is_ws c) t")
  case Nil
  then show ?thesis
    by (simp add: split_ws_no_ws rest_after_first_token_def del: dropWhile_eq_Nil_conv)
next
  case (Cons c r)
  have ws: "is_ws c" using Cons hd_dropWhile [of "\<lambda>c. \<not> is_ws c" t] by auto
  show ?thesis using ws
    by (simp add: split_ws_ws [OF Cons] Cons rest_after_first_token_def join_split_ws)
qed

lemma js_space: "js '' '' = [0x20]" by (simp add: js_def)

section \<open>Dispatch\<close>

lemma execute_dispatch:
  assumes "trim input \<noteq> []" and "trim input \<noteq> js '':q''"
    and "toLowerCase h (first_token (trim input)) \<noteq> js '':q''"
  shows "execute h cmds input =
    (case get_property cmds (toLowerCase h (first_token (trim input))) of
       Own f \<Rightarrow> try_catch (f (String (collapse_ws (rest_after_first_token (trim input)))))
     | Inherited m \<Rightarrow>
         try_catch (call_member h cmds m (collapse_ws (rest_after_first_token (trim input))))
     | Absent \<Rightarrow>
         Returns (CommandResult Error (String
           (js ''Command not found: '' @ toLowerCase h (first_token (trim input)) @
            js ''. Type 'help' for available commands.''))))"
proof -
  obtain p ps where sp: "split_ws (trim input) = p # ps"
    using split_ws_not_Nil [of "trim input"] by (cases "split_ws (trim input)") auto
  have p: "p = first_token (trim input)"
    using split_ws_hd [of "trim input"] sp by simp
  have ps: "join (js '' '') ps = collapse_ws (rest_after_first_token (trim input))"
    using tl_split_ws [of "trim input"] sp by (simp add: js_space)
  show ?thesis
    using assms by (simp add: execute_def Let_def sp ps p split: property.split)
qed

section \<open>The history store: auxiliary facts\<close>

lemma hist_length_items: "hist_length hs = int (length (hist_items hs))"
  by (cases hs) simp_all

lemma hist_length_nonneg: "0 \<le> hist_length hs"
  by (simp add: hist_length_items)

lemma history_saveHistory: "history (saveHistory h s) = history s"
  by (simp add: saveHistory_def Let_def split: option.split)

lemma historyIndex_saveHistory: "historyIndex (saveHistory h s) = historyIndex s"
  by (simp add: saveHistory_def Let_def split: option.split)

lemma slice_last_length: "length (slice_last n xs) \<le> n"
  by (simp add: slice_last_def)

lemma loadHistory_bounded:
  "hist_length (history s) \<le> int maxHistoryItems \<Longrightarrow>
   hist_length (history (loadHistory h s)) \<le> int maxHistoryItems"
  by (simp add: loadHistory_def slice_last_length split: option.split jsvalue.split)

lemma history_init: "history (init h s) = history (loadHistory h s)"
  by (simp add: init_def Let_def)

lemma addToHistory_array:
  "history s = Arr xs \<Longrightarrow> trim command \<noteq> [] \<Longrightarrow>
   history (snd (addToHistory h command s)) =
     Arr (if length xs < maxHistoryItems then xs @ [String (trim command)]
          else tl (xs @ [String (trim command)]))
   \<and> historyIndex (snd (addToHistory h command s)) =
       hist_length (history (snd (addToHistory h command s)))"
  by (auto simp: addToHistory_def Let_def history_saveHistory historyIndex_saveHistory)

lemma addToHistory_unchanged:
  "trim command = [] \<or> (\<exists>t. history s = Str t) \<Longrightarrow> snd (addToHistory h command s) = s"
  by (auto simp: addToHistory_def Let_def)

section \<open>Trimming\<close>

lemma dropWhile_all_Nil:
  assumes "\<forall>x \<in> set (dropWhile P xs). P x"
  shows "dropWhile P xs = []"
proof (rule ccontr)
  assume ne: "dropWhile P xs \<noteq> []"
  then have "\<not> P (hd (dropWhile P xs))" by (rule hd_dropWhile)
  moreover have "hd (dropWhile P xs) \<in> set (dropWhile P xs)" using ne by simp
  ultimately show False using assms by blast
qed

lemma trim_Nil_iff_all_ws: "trim s = [] \<longleftrightarrow> (\<forall>c \<in> set s. is_ws c)"
proof
  assume "trim s = []"
  then have "\<forall>x \<in> set (dropWhile is_ws s). is_ws x"
    by (simp add: trim_def dropWhile_eq_Nil_conv)
  then have "dropWhile is_ws s = []" by (rule dropWhile_all_Nil)
  then show "\<forall>c \<in> set s. is_ws c" by (simp add: dropWhile_eq_Nil_conv)
next
  assume "\<forall>c \<in> set s. is_ws c"
  then have "dropWhile is_ws s = []" by (simp add: dropWhile_eq_Nil_conv)
  then show "trim s = []" by (simp add: trim_def del: dropWhile_eq_Nil_conv)
qed

lemma last_dropWhile_ne: "dropWhile P xs \<noteq> [] \<Longrightarrow> last (dropWhile P xs) = last xs"
  by (induction xs) (auto split: if_splits)

lemma trim_ends:
  assumes "trim s \<noteq> []"
  shows "\<not> is_ws (hd (trim s)) \<and> \<not> is_ws (last (trim s))"
proof -
  let ?u = "dropWhile is_ws s"
  let ?v = "dropWhile is_ws (rev ?u)"
  have v: "?v \<noteq> []" using assms by (simp add: trim_def del: dropWhile_eq_Nil_conv)
  have u: "?u \<noteq> []"
  proof
    assume "?u = []"
    then have "?v = []" by (simp del: dropWhile_eq_Nil_conv)
    with v show False by contradiction
  qed
  have "last (trim s) = hd ?v" using v by (simp add: trim_def last_rev del: dropWhile_eq_Nil_conv)
  moreover have "\<not> is_ws (hd ?v)" using v by (rule hd_dropWhile)
  moreover have "hd (trim s) = last ?v" using v by (simp add: trim_def hd_rev del: dropWhile_eq_Nil_conv)
  moreover have "last ?v = last (rev ?u)" using v by (rule last_dropWhile_ne)
  moreover have "last (rev ?u) = hd ?u" using u by (simp add: last_rev del: dropWhile_eq_Nil_conv)
  moreover have "\<not> is_ws (hd ?u)" using u by (rule hd_dropWhile)
  ultimately show ?thesis by simp
qed

lemma trim_decomp:
  "s = takeWhile is_ws s @ trim s @ rev (takeWhile is_ws (rev (dropWhile is_ws s)))"
proof -
  let ?u = "dropWhile is_ws s"
  have "rev ?u = takeWhile is_ws (rev ?u) @ dropWhile is_ws (rev ?u)" by simp
  then have "rev (rev ?u) = rev (takeWhile is_ws (rev ?u) @ dropWhile is_ws (rev ?u))" by simp
  then have "?u = trim s @ rev (takeWhile is_ws (rev ?u))"
    by (simp add: trim_def del: takeWhile_dropWhile_id)
  then have "takeWhile is_ws s @ ?u = takeWhile is_ws s @ trim s @ rev (takeWhile is_ws (rev ?u))"
    by simp
  then show ?thesis by simp
qed

lemma trimmed_entry_trim: "trim s \<noteq> [] \<Longrightarrow> trimmed_entry (String (trim s))"
  using trim_ends [of s] by simp

section \<open>Sequences of submissions\<close>

lemma slice_last_idem: "slice_last n (slice_last n ys @ zs) = slice_last n (ys @ zs)"
proof (cases "length ys \<le> n")
  case True
  then show ?thesis by (simp add: slice_last_def)
next
  case False
  then show ?thesis by (simp add: slice_last_def min_def add.commute)
qed

lemma slice_last_le: "length xs \<le> n \<Longrightarrow> slice_last n xs = xs"
  by (simp add: slice_last_def)

lemma addToHistory_slice:
  assumes "history s = Arr xs" and "length xs \<le> maxHistoryItems" and "trim command \<noteq> []"
  shows "history (snd (addToHistory h command s)) =
           Arr (slice_last maxHistoryItems (xs @ [String (trim command)]))"
proof (cases "length xs < maxHistoryItems")
  case True
  then show ?thesis
    using addToHistory_array [OF assms(1,3), of h] by (simp add: slice_last_def)
next
  case False
  with assms(2) have "length xs = maxHistoryItems" by simp
  then show ?thesis
    using addToHistory_array [OF assms(1,3), of h]
    by (cases xs) (simp_all add: slice_last_def drop_Suc maxHistoryItems_def)
qed

lemma stored_entries_Cons:
  "stored_entries (c # cs) =
     (if trim c = [] then stored_entries cs else String (trim c) # stored_entries cs)"
  by (simp add: stored_entries_def)

lemma addToHistory_all_history:
  "history s = Arr xs \<Longrightarrow> length xs \<le> maxHistoryItems \<Longrightarrow>
   history (addToHistory_all h cs s) = Arr (slice_last maxHistoryItems (xs @ stored_entries cs))"
proof (induction cs arbitrary: s xs)
  case Nil
  then show ?case by (simp add: stored_entries_def slice_last_le)
next
  case (Cons c cs)
  show ?case
  proof (cases "trim c = []")
    case True
    then have "snd (addToHistory h c s) = s" by (simp add: addToHistory_unchanged)
    then show ?thesis using Cons True by (simp add: stored_entries_Cons)
  next
    case False
    let ?ys = "slice_last maxHistoryItems (xs @ [String (trim c)])"
    have 1: "history (snd (addToHistory h c s)) = Arr ?ys"
      using Cons.prems False by (rule addToHistory_slice)
    have 2: "length ?ys \<le> maxHistoryItems" by (rule slice_last_length)
    have "history (addToHistory_all h cs (snd (addToHistory h c s))) =
            Arr (slice_last maxHistoryItems (?ys @ stored_entries cs))"
      using 1 2 by (rule Cons.IH)
    then show ?thesis
      using False by (simp add: stored_entries_Cons slice_last_idem)
  qed
qed

lemma stored_entries_trimmed: "list_all trimmed_entry (stored_entries cs)"
proof (induction cs)
  case Nil
  then show ?case by (simp add: stored_entries_def)
next
  case (Cons c cs)
  then show ?case using trimmed_entry_trim [of c] by (simp add: stored_entries_Cons)
qed

lemma list_all_slice_last: "list_all P xs \<Longrightarrow> list_all P (slice_last n xs)"
  by (auto simp: slice_last_def list_all_iff dest: in_set_dropD)

section \<open>The interpreter: auxiliary facts\<close>

lemma commands_q: "commands h (js '':q'') = Some (quit h)"
  by (simp add: commands_def js_def)

lemma try_catch_not_Null: "try_catch r \<noteq> Returns Null"
  by (cases r) (auto simp: try_catch_def)

lemma quit_not_Null: "quit h v \<noteq> Returns Null"
  by (simp add: quit_def host_do_def split: option.split)

lemma execute_Null_iff: "execute h (commands h) input = Returns Null \<longleftrightarrow> trim input = []"
proof (cases "trim input = []")
  case True
  then show ?thesis by (simp add: execute_def)
next
  case False
  obtain p ps where sp: "split_ws (trim input) = p # ps"
    using split_ws_not_Nil [of "trim input"] by (cases "split_ws (trim input)") auto
  show ?thesis
    using False
    by (simp add: execute_def Let_def sp commands_q quit_not_Null try_catch_not_Null
        split: property.split)
qed

lemma execute_falsy_result:
  assumes "trim input \<noteq> []" and "trim input \<noteq> js '':q''"
    and "toLowerCase h (first_token (trim input)) \<noteq> js '':q''"
    and "cmds (toLowerCase h (first_token (trim input))) = Some f"
    and "f (String (collapse_ws (rest_after_first_token (trim input)))) = Returns v"
    and "\<not> truthy v"
  shows "execute h cmds input = Returns (CommandResult Info (String []))"
  using assms by (simp add: execute_dispatch get_property_def try_catch_def)

lemma execute_not_found:
  assumes "trim input \<noteq> []" and "trim input \<noteq> js '':q''"
    and "toLowerCase h (first_token (trim input)) = cmd" and "cmd \<noteq> js '':q''"
    and "cmds cmd = None" and "map_of Object_prototype cmd = None"
  shows "execute h cmds input = Returns (CommandResult Error (String
           (js ''Command not found: '' @ cmd @ js ''. Type 'help' for available commands.'')))"
  using assms by (simp add: execute_dispatch get_property_def)

lemma execute_quit:
  assumes "trim input \<noteq> []"
    and "trim input = js '':q'' \<or> toLowerCase h (first_token (trim input)) = js '':q''"
    and "cmds (js '':q'') = Some f"
  shows "execute h cmds input = f Undefined"
proof -
  obtain p ps where sp: "split_ws (trim input) = p # ps"
    using split_ws_not_Nil [of "trim input"] by (cases "split_ws (trim input)") auto
  have p: "p = first_token (trim input)"
    using split_ws_hd [of "trim input"] sp by simp
  show ?thesis
    using assms by (auto simp: execute_def Let_def sp p)
qed

section \<open>The files of \<open>cat\<close>\<close>

lemma about_txt_truthy: "about_txt \<noteq> []" by (simp add: about_txt_def js_def)
lemma experience_log_truthy: "experience_log \<noteq> []" by (simp add: experience_log_def js_def)
lemma README_md_truthy: "README_md \<noteq> []" by (simp add: README_md_def js_def)

lemma FILE_CONTENT_dom:
  "FILE_CONTENT name = Some text \<longleftrightarrow>
     name = js ''about.txt'' \<and> text = about_txt
   \<or> name = js ''experience.log'' \<and> text = experience_log
   \<or> name = js ''README.md'' \<and> text = README_md"
  by (auto simp: FILE_CONTENT_def js_def)

lemma FILE_CONTENT_truthy: "FILE_CONTENT name = Some text \<Longrightarrow> text \<noteq> []"
  using about_txt_truthy experience_log_truthy README_md_truthy
  by (auto simp: FILE_CONTENT_dom)

lemma cat_known_file:
  assumes "FILE_CONTENT (trim a) = Some text"
  shows "cat h (String a) = Returns (CommandResult Info (String text))"
  using assms FILE_CONTENT_truthy [OF assms] by (simp add: cat_def get_property_def)

lemma cat_unknown_file:
  "FILE_CONTENT (trim a) = None \<Longrightarrow> map_of Object_prototype (trim a) = None \<Longrightarrow>
   cat h (String a) = Returns (CommandResult Error (String
     (js ''cat: '' @ trim a @ js '': No such file or directory'')))"
  by (simp add: cat_def get_property_def)

lemmas eval_simps = js_def trim_def is_ws_def split_ws.simps execute_def test_host_def
  ascii_lower_def commands_def get_property_def Object_prototype_def try_catch_def cat_def
  FILE_CONTENT_def host_do_def failing_host_def

section \<open>The argument string\<close>

text \<open>
  C1, as the code has it. For every input line whose trimmed form is non-empty and that is
  dispatched to a handler of the table (not through the quit shortcut), the argument string
  that \<open>execute\<close> passes to the handler is what remains after the first
  whitespace-delimited token of the trimmed input with every run of whitespace in it
  replaced by one space: the remaining tokens joined by single spaces.
\<close>

theorem execute_args_joined:
  assumes "trim input \<noteq> []" and "trim input \<noteq> js '':q''"
    and "toLowerCase h (first_token (trim input)) \<noteq> js '':q''"
    and "cmds (toLowerCase h (first_token (trim input))) = Some f"
  shows "execute h cmds input =
           try_catch (f (String (collapse_ws (rest_after_first_token (trim input)))))"
  using assms by (simp add: execute_dispatch get_property_def)

text \<open>The theorem at \<open>cat a   b\<close>: the handler \<open>cat\<close> is passed \<open>a b\<close>.\<close>

theorem execute_args_joined_witness:
  "trim (js ''cat a   b'') \<noteq> [] \<and> trim (js ''cat a   b'') \<noteq> js '':q''
   \<and> toLowerCase test_host (first_token (trim (js ''cat a   b''))) \<noteq> js '':q''
   \<and> commands test_host (toLowerCase test_host (first_token (trim (js ''cat a   b''))))
       = Some (cat test_host)
   \<and> collapse_ws (rest_after_first_token (trim (js ''cat a   b''))) = js ''a b''
   \<and> execute test_host (commands test_host) (js ''cat a   b'') =
       try_catch (cat test_host (String (js ''a b'')))"
proof -
  have 1: "trim (js ''cat a   b'') = js ''cat a   b''"
    by (simp add: js_def trim_def is_ws_def)
  have 2: "first_token (js ''cat a   b'') = js ''cat''"
    by (simp add: js_def first_token_def is_ws_def)
  have 3: "toLowerCase test_host (js ''cat'') = js ''cat''"
    by (simp add: js_def test_host_def ascii_lower_def)
  have 4: "commands test_host (js ''cat'') = Some (cat test_host)"
    by (simp add: commands_def js_def)
  have 5: "collapse_ws (rest_after_first_token (js ''cat a   b'')) = js ''a b''"
    by (simp add: js_def rest_after_first_token_def is_ws_def)
  have 6: "js ''cat a   b'' \<noteq> []" "js ''cat a   b'' \<noteq> js '':q''" "js ''cat'' \<noteq> js '':q''"
    by (simp_all add: js_def)
  show ?thesis
    using execute_args_joined [of "js ''cat a   b''" test_host "commands test_host" "cat test_host"]
    by (simp add: 1 2 3 4 5 6)
qed

text \<open>
  C1 as stated fails: at \<open>cat a   b\<close> what remains after the first token, whitespace
  kept, is \<open>a   b\<close>, and the handler is passed \<open>a b\<close>, as its reply shows.
\<close>

theorem args_whitespace_counterexample:
  "rest_after_first_token (trim (js ''cat a   b'')) = js ''a   b''
   \<and> execute test_host (commands test_host) (js ''cat a   b'') =
       Returns (CommandResult Error (String (js ''cat: a b: No such file or directory'')))
   \<and> execute test_host (commands test_host) (js ''cat a   b'') \<noteq>
       try_catch (cat test_host (String (rest_after_first_token (trim (js ''cat a   b'')))))"
  by (simp add: eval_simps rest_after_first_token_def)

section \<open>Handler faults\<close>

text \<open>
  C2, as the code has it. For every input whose command name is an entry of the handler
  table and that is not dispatched through the quit shortcut, if the handler throws an
  error with message \<open>m\<close>, \<open>execute\<close> returns a result of kind error whose text is
  \<open>Error: \<close> followed by \<open>m\<close>.
\<close>

theorem handler_fault_caught:
  assumes "trim input \<noteq> []" and "trim input \<noteq> js '':q''"
    and "toLowerCase h (first_token (trim input)) \<noteq> js '':q''"
    and "cmds (toLowerCase h (first_token (trim input))) = Some f"
    and "f (String (collapse_ws (rest_after_first_token (trim input)))) = Throws message"
  shows "execute h cmds input = Returns (CommandResult Error (String (js ''Error: '' @ message)))"
  using assms by (simp add: execute_dispatch get_property_def try_catch_def)

text \<open>The theorem at \<open>github\<close>, on a host whose \<open>window.open\<close> throws.\<close>

theorem handler_fault_caught_witness:
  "trim (js ''github'') \<noteq> [] \<and> trim (js ''github'') \<noteq> js '':q''
   \<and> toLowerCase failing_host (first_token (trim (js ''github''))) \<noteq> js '':q''
   \<and> commands failing_host (toLowerCase failing_host (first_token (trim (js ''github''))))
       = Some (github failing_host)
   \<and> github failing_host (String (collapse_ws (rest_after_first_token (trim (js ''github'')))))
       = Throws (js ''blocked'')
   \<and> execute failing_host (commands failing_host) (js ''github'') =
       Returns (CommandResult Error (String (js ''Error: '' @ js ''blocked'')))"
proof -
  have 1: "trim (js ''github'') = js ''github''"
    by (simp add: js_def trim_def is_ws_def)
  have 2: "first_token (js ''github'') = js ''github''"
    by (simp add: js_def first_token_def is_ws_def)
  have 3: "toLowerCase failing_host (js ''github'') = js ''github''"
    by (simp add: js_def failing_host_def test_host_def ascii_lower_def)
  have 4: "commands failing_host (js ''github'') = Some (github failing_host)"
    by (simp add: commands_def js_def)
  have 5: "github failing_host v = Throws (js ''blocked'')" for v
    by (simp add: github_def host_do_def failing_host_def)
  have 6: "js ''github'' \<noteq> []" "js ''github'' \<noteq> js '':q''"
    by (simp_all add: js_def)
  show ?thesis
    using handler_fault_caught [of "js ''github''" failing_host "commands failing_host"
        "github failing_host" "js ''blocked''"]
    by (simp add: 1 2 3 4 5 6)
qed

text \<open>
  C2 as stated fails twice on a host whose calls throw \<open>blocked\<close>: the text of the result
  for \<open>github\<close> is \<open>Error: blocked\<close>, not the message \<open>blocked\<close>; and the fault of the
  handler of \<open>:q\<close>, called outside the \<open>try\<close> block, leaves \<open>execute\<close> as a throw.
\<close>

theorem handler_fault_counterexample:
  "github failing_host (String []) = Throws (js ''blocked'')
   \<and> execute failing_host (commands failing_host) (js ''github'') =
       Returns (CommandResult Error (String (js ''Error: blocked'')))
   \<and> execute failing_host (commands failing_host) (js ''github'') \<noteq>
       Returns (CommandResult Error (String (js ''blocked'')))
   \<and> execute failing_host (commands failing_host) (js '':q'') = Throws (js ''blocked'')"
  by (simp add: eval_simps github_def quit_def)

section \<open>The cursor invariant\<close>

text \<open>
  C3. The history cursor is in the range from 0 to the length of the history, both
  included: after \<open>init\<close>, whatever the store holds and whichever host call throws, and
  after \<open>addToHistory\<close>, \<open>getPrevious\<close> and \<open>getNext\<close> from any state in which it is, also
  when \<open>addToHistory\<close> throws or the write to the store fails.
\<close>

theorem cursor_stays_in_range:
  "cursor_in_range (init h s0)
   \<and> (cursor_in_range s \<longrightarrow>
        cursor_in_range (snd (addToHistory h command s))
        \<and> cursor_in_range (snd (getPrevious s))
        \<and> cursor_in_range (snd (getNext s)))"
proof -
  have a: "cursor_in_range (init h s0)"
    by (simp add: cursor_in_range_def init_def Let_def hist_length_nonneg)
  have b: "cursor_in_range (snd (addToHistory h command s))" if "cursor_in_range s"
  proof (cases "trim command = [] \<or> (\<exists>t. history s = Str t)")
    case True
    then show ?thesis using that by (simp add: addToHistory_unchanged)
  next
    case False
    then obtain xs where "history s = Arr xs" "trim command \<noteq> []"
      by (cases "history s") auto
    from addToHistory_array [OF this] show ?thesis
      by (simp add: cursor_in_range_def hist_length_nonneg)
  qed
  have c: "cursor_in_range (snd (getPrevious s))" if "cursor_in_range s"
    using that by (simp add: cursor_in_range_def getPrevious_def Let_def)
  have d: "cursor_in_range (snd (getNext s))" if "cursor_in_range s"
    using that by (simp add: cursor_in_range_def getNext_def Let_def hist_length_nonneg)
  from a b c d show ?thesis by blast
qed

text \<open>The theorem at a state with two entries, on the host whose calls all throw.\<close>

theorem cursor_stays_in_range_witness:
  "cursor_in_range sample_state
   \<and> cursor_in_range (snd (addToHistory failing_host (js '' whoami '') sample_state))
   \<and> cursor_in_range (snd (getPrevious sample_state))
   \<and> cursor_in_range (snd (getNext sample_state))"
proof -
  have "cursor_in_range sample_state"
    by (simp add: cursor_in_range_def sample_state_def)
  then show ?thesis
    using cursor_stays_in_range [of failing_host sample_state sample_state "js '' whoami ''"]
    by simp
qed

section \<open>The bound on the history\<close>

text \<open>
  C4. The length of the history never exceeds the configured maximum of 50: it does not
  after \<open>init\<close> from the initial object; a stored array is loaded as its last 50 entries
  (all of them when there are fewer); \<open>init\<close> and \<open>addToHistory\<close> keep the bound; and adding
  to a history at the maximum drops the oldest entry and appends the new one, so the
  length stays at the maximum and the survivors keep their order.
\<close>

theorem history_length_bounded:
  "maxHistoryItems = 50
   \<and> hist_length (history (init h (CommandSystem stored))) \<le> int maxHistoryItems
   \<and> (fault h (GetItem storageKey) = None \<and> localStorage s = Some saved \<and> saved \<noteq> []
        \<and> JSON_parse h saved = Some (Array xs) \<longrightarrow>
          history (init h s) = Arr (drop (length xs - maxHistoryItems) xs))
   \<and> (hist_length (history s) \<le> int maxHistoryItems \<longrightarrow>
        hist_length (history (init h s)) \<le> int maxHistoryItems
        \<and> hist_length (history (snd (addToHistory h command s))) \<le> int maxHistoryItems)
   \<and> (history s = Arr ys \<and> length ys = maxHistoryItems \<and> trim command \<noteq> [] \<longrightarrow>
        history (snd (addToHistory h command s)) = Arr (tl ys @ [String (trim command)])
        \<and> hist_length (history (snd (addToHistory h command s))) = int maxHistoryItems)"
proof -
  have a: "hist_length (history (init h (CommandSystem stored))) \<le> int maxHistoryItems"
    unfolding history_init by (rule loadHistory_bounded) (simp add: CommandSystem_def)
  have b: "history (init h s) = Arr (drop (length xs - maxHistoryItems) xs)"
    if "fault h (GetItem storageKey) = None" "localStorage s = Some saved" "saved \<noteq> []"
       "JSON_parse h saved = Some (Array xs)"
    using that by (simp add: history_init loadHistory_def slice_last_def)
  have c: "hist_length (history (init h s)) \<le> int maxHistoryItems"
    if "hist_length (history s) \<le> int maxHistoryItems"
    unfolding history_init using that by (rule loadHistory_bounded)
  have d: "hist_length (history (snd (addToHistory h command s))) \<le> int maxHistoryItems"
    if le: "hist_length (history s) \<le> int maxHistoryItems"
  proof (cases "trim command = [] \<or> (\<exists>t. history s = Str t)")
    case True
    then show ?thesis using le by (simp add: addToHistory_unchanged)
  next
    case False
    then obtain zs where zs: "history s = Arr zs" "trim command \<noteq> []"
      by (cases "history s") auto
    from addToHistory_array [OF this] le zs(1) show ?thesis
      by (auto simp: maxHistoryItems_def)
  qed
  have e: "history (snd (addToHistory h command s)) = Arr (tl ys @ [String (trim command)])
        \<and> hist_length (history (snd (addToHistory h command s))) = int maxHistoryItems"
    if "history s = Arr ys" "length ys = maxHistoryItems" "trim command \<noteq> []"
  proof -
    have "ys \<noteq> []" using that(2) by (auto simp: maxHistoryItems_def)
    then show ?thesis
      using addToHistory_array [OF that(1) that(3), of h] that(2)
      by (cases ys) (simp_all add: maxHistoryItems_def)
  qed
  from a b c d e show ?thesis by (simp add: maxHistoryItems_def)
qed

text \<open>
  The theorem at a history of fifty entries, over a store that parses as fifty-one: the
  load keeps the last fifty of them, and adding \<open>whoami\<close> drops the oldest entry \<open>0\<close>.
\<close>

theorem history_length_bounded_witness:
  "fault long_host (GetItem storageKey) = None
   \<and> localStorage full_state = Some (js ''saved'') \<and> js ''saved'' \<noteq> []
   \<and> JSON_parse long_host (js ''saved'') =
       Some (Array (String (js ''0'') # replicate 50 (String (js ''ls''))))
   \<and> hist_length (history full_state) \<le> int maxHistoryItems
   \<and> history full_state = Arr (String (js ''0'') # replicate 49 (String (js ''ls'')))
   \<and> length (String (js ''0'') # replicate 49 (String (js ''ls''))) = maxHistoryItems
   \<and> trim (js '' whoami '') \<noteq> []
   \<and> history (init long_host full_state) = Arr (replicate 50 (String (js ''ls'')))
   \<and> history (snd (addToHistory long_host (js '' whoami '') full_state)) =
       Arr (replicate 49 (String (js ''ls'')) @ [String (js ''whoami'')])
   \<and> hist_length (history (snd (addToHistory long_host (js '' whoami '') full_state))) = 50"
proof -
  have 1: "trim (js '' whoami '') = js ''whoami''"
    by (simp add: js_def trim_def is_ws_def)
  have 2: "js ''whoami'' \<noteq> []" "js ''saved'' \<noteq> []"
    by (simp_all add: js_def)
  have 3: "fault long_host c = None" for c
    by (simp add: long_host_def test_host_def)
  have 4: "JSON_parse long_host t =
             Some (Array (String (js ''0'') # replicate 50 (String (js ''ls''))))" for t
    by (simp add: long_host_def)
  show ?thesis
    using history_length_bounded [of long_host None full_state "js ''saved''"
        "String (js ''0'') # replicate 50 (String (js ''ls''))" "js '' whoami ''"
        "String (js ''0'') # replicate 49 (String (js ''ls''))"]
    by (simp add: 1 2 3 4 full_state_def maxHistoryItems_def)
qed

section \<open>Unknown commands\<close>

text \<open>
  C5, at an input where the code departs from it. The first token of \<open>constructor\<close>,
  lower-cased, is no entry of the handler table, and \<open>execute\<close> does not answer
  \<open>Command not found\<close>: \<open>this.commands['constructor']\<close> is the function \<open>Object\<close>
  inherited from \<open>Object.prototype\<close>, the call \<open>Object('')\<close> returns a \<open>String\<close> object,
  and \<open>execute\<close> returns that object. (\<open>execute_not_found\<close> above is the claim for every
  name that is neither an entry of the table nor a property of \<open>Object.prototype\<close>.)
\<close>

theorem constructor_not_rejected:
  "toLowerCase test_host (first_token (trim (js ''constructor''))) = js ''constructor''
   \<and> commands test_host (js ''constructor'') = None
   \<and> execute test_host (commands test_host) (js ''constructor'') = Returns (StringObject [])"
  by (simp add: eval_simps first_token_def)

section \<open>Navigation\<close>

text \<open>
  C6. In every state whose cursor is in range: when the cursor is above 0, \<open>getPrevious\<close>
  decrements it and returns the entry at the new cursor, and otherwise it returns the empty
  string and leaves the cursor at 0; when the cursor is below the length minus one,
  \<open>getNext\<close> increments it and returns the entry at the new cursor, and otherwise it sets
  the cursor to the length and returns the empty string.
\<close>

theorem history_navigation:
  assumes "cursor_in_range s"
  shows "(0 < historyIndex s \<longrightarrow>
            getPrevious s = (hist_items (history s) ! nat (historyIndex s - 1),
                             s\<lparr>historyIndex := historyIndex s - 1\<rparr>)
            \<and> nat (historyIndex s - 1) < length (hist_items (history s)))
       \<and> (\<not> 0 < historyIndex s \<longrightarrow>
            getPrevious s = (String [], s) \<and> historyIndex (snd (getPrevious s)) = 0)
       \<and> (historyIndex s < hist_length (history s) - 1 \<longrightarrow>
            getNext s = (hist_items (history s) ! nat (historyIndex s + 1),
                         s\<lparr>historyIndex := historyIndex s + 1\<rparr>)
            \<and> nat (historyIndex s + 1) < length (hist_items (history s)))
       \<and> (\<not> historyIndex s < hist_length (history s) - 1 \<longrightarrow>
            getNext s = (String [], s\<lparr>historyIndex := hist_length (history s)\<rparr>))"
  using assms
  by (auto simp: cursor_in_range_def getPrevious_def getNext_def Let_def hist_at_def
      hist_length_items)

text \<open>The theorem at a state with two entries, with the cursor at 1 and at 0.\<close>

theorem history_navigation_witness:
  "cursor_in_range sample_state
   \<and> getPrevious sample_state =
       (String (js ''help''), sample_state\<lparr>historyIndex := 0\<rparr>)
   \<and> getNext sample_state = (String [], sample_state\<lparr>historyIndex := 2\<rparr>)
   \<and> getPrevious (sample_state\<lparr>historyIndex := 0\<rparr>) =
       (String [], sample_state\<lparr>historyIndex := 0\<rparr>)
   \<and> getNext (sample_state\<lparr>historyIndex := 0\<rparr>) =
       (String (js ''ls''), sample_state\<lparr>historyIndex := 1\<rparr>)"
proof -
  have 1: "cursor_in_range sample_state"
    by (simp add: cursor_in_range_def sample_state_def)
  have 2: "cursor_in_range (sample_state\<lparr>historyIndex := 0\<rparr>)"
    by (simp add: cursor_in_range_def sample_state_def)
  show ?thesis
    using history_navigation [OF 1] history_navigation [OF 2] 1
    by (simp add: sample_state_def)
qed

section \<open>The files of \<open>cat\<close>: inherited names\<close>

text \<open>
  C7, at an input where the code departs from it. \<open>toString\<close> is no name of the file table,
  and \<open>cat\<close> does not answer \<open>No such file or directory\<close>: \<open>FILE_CONTENT['toString']\<close> is
  the function inherited from \<open>Object.prototype\<close>, which is true, so the result is of kind
  info with that function as its content. (\<open>cat_known_file\<close> and \<open>cat_unknown_file\<close> above
  are the claim for the three files and for every name that is neither a file nor a
  property of \<open>Object.prototype\<close>.)
\<close>

theorem cat_inherited_name:
  "FILE_CONTENT (trim (js ''toString'')) = None
   \<and> cat test_host (String (js ''toString'')) =
       Returns (CommandResult Info (Builtin ToString))
   \<and> execute test_host (commands test_host) (js ''cat toString'') =
       Returns (CommandResult Info (Builtin ToString))"
  by (simp add: eval_simps)

section \<open>The value of \<open>execute\<close>\<close>

text \<open>
  C8, at an input where the code departs from it. \<open>Constructor portfolio\<close> is not empty
  after trimming, and what \<open>execute\<close> returns is not a result object: it is the \<open>String\<close>
  object that \<open>Object('portfolio')\<close> makes, a true value that passes the normalisation
  unchanged. (\<open>execute_Null_iff\<close> and \<open>execute_falsy_result\<close> above are the rest of the
  claim: \<open>null\<close> exactly for the input that is empty after trimming, and a false value
  returned by a handler becomes the empty info result.)
\<close>

theorem constructor_result_is_no_CommandResult:
  "trim (js ''Constructor portfolio'') \<noteq> []
   \<and> execute test_host (commands test_host) (js ''Constructor portfolio'') =
       Returns (StringObject (js ''portfolio''))
   \<and> \<not> is_CommandResult (StringObject (js ''portfolio''))"
  by (simp add: eval_simps)

section \<open>The frame of navigation\<close>

text \<open>
  C9. \<open>getPrevious\<close> and \<open>getNext\<close> leave the history and the persistent store as they
  are, in every state; only the cursor can change.
\<close>

theorem navigation_keeps_history:
  "history (snd (getPrevious s)) = history s
   \<and> localStorage (snd (getPrevious s)) = localStorage s
   \<and> history (snd (getNext s)) = history s
   \<and> localStorage (snd (getNext s)) = localStorage s"
  by (simp add: getPrevious_def getNext_def Let_def)

section \<open>History entries\<close>

text \<open>
  C10, as the code has it. Every entry that \<open>addToHistory\<close> stores is the trimmed form of
  its input. On an array history, an input that is empty after trimming stores nothing,
  and any other input is appended with its leading and trailing whitespace removed (the
  oldest entry going beyond the maximum): the new last entry is a non-empty string with no
  whitespace at either end, and \<open>getPrevious\<close> then returns it. After any sequence of
  submissions the list is the last 50 of the entries it held before, unchanged, followed
  by the trimmed non-empty inputs; so every entry is a non-empty string with no whitespace
  at either end when the list started empty.
\<close>

theorem added_entry_is_trimmed:
  assumes "history s = Arr xs"
  shows "(trim command = [] \<longrightarrow> addToHistory h command s = (Returns (), s))
       \<and> (trim command \<noteq> [] \<longrightarrow>
            history (snd (addToHistory h command s)) =
              Arr (if length xs < maxHistoryItems then xs @ [String (trim command)]
                   else tl (xs @ [String (trim command)]))
            \<and> last (hist_items (history (snd (addToHistory h command s)))) =
                String (trim command)
            \<and> trimmed_entry (String (trim command))
            \<and> command = takeWhile is_ws command @ trim command
                          @ rev (takeWhile is_ws (rev (dropWhile is_ws command)))
            \<and> fst (getPrevious (snd (addToHistory h command s))) = String (trim command))
       \<and> (length xs \<le> maxHistoryItems \<longrightarrow>
            history (addToHistory_all h inputs s) =
              Arr (slice_last maxHistoryItems (xs @ stored_entries inputs)))
       \<and> list_all trimmed_entry (stored_entries inputs)
       \<and> (xs = [] \<longrightarrow>
            list_all trimmed_entry (hist_items (history (addToHistory_all h inputs s))))"
proof (intro conjI impI)
  assume "trim command = []"
  then show "addToHistory h command s = (Returns (), s)"
    by (simp add: addToHistory_def)
next
  let ?e = "String (trim command)"
  let ?ys = "if length xs < maxHistoryItems then xs @ [?e] else tl (xs @ [?e])"
  assume ne: "trim command \<noteq> []"
  note a = addToHistory_array [OF assms ne, of h]
  have ys: "?ys \<noteq> []" by (cases xs) (auto simp: maxHistoryItems_def)
  have l: "last ?ys = ?e" by (cases xs) (auto simp: maxHistoryItems_def)
  show "history (snd (addToHistory h command s)) = Arr ?ys"
    using a by simp
  show "last (hist_items (history (snd (addToHistory h command s)))) = ?e"
    using a l by simp
  show "trimmed_entry ?e"
    using ne by (rule trimmed_entry_trim)
  show "command = takeWhile is_ws command @ trim command
          @ rev (takeWhile is_ws (rev (dropWhile is_ws command)))"
    by (rule trim_decomp)
  show "fst (getPrevious (snd (addToHistory h command s))) = ?e"
  proof -
    have "nat (int (length ?ys) - 1) = length ?ys - 1" by simp
    moreover have "?ys ! (length ?ys - 1) = last ?ys" using ys by (simp add: last_conv_nth)
    ultimately show ?thesis
      using a ys l by (simp add: getPrevious_def Let_def hist_at_def del: last_snoc)
  qed
next
  assume "length xs \<le> maxHistoryItems"
  with assms show "history (addToHistory_all h inputs s) =
      Arr (slice_last maxHistoryItems (xs @ stored_entries inputs))"
    by (rule addToHistory_all_history)
next
  show "list_all trimmed_entry (stored_entries inputs)"
    by (rule stored_entries_trimmed)
next
  assume "xs = []"
  then have "history (addToHistory_all h inputs s) =
      Arr (slice_last maxHistoryItems (stored_entries inputs))"
    using addToHistory_all_history [OF assms, of h inputs] by simp
  then show "list_all trimmed_entry (hist_items (history (addToHistory_all h inputs s)))"
    by (simp add: list_all_slice_last stored_entries_trimmed)
qed

text \<open>
  The theorem at a state with two entries and at the initial object, for the inputs \<open>a\<close>
  between spaces, a blank line, and \<open>cat  x\<close> with a space after it.
\<close>

theorem added_entry_is_trimmed_witness:
  "history sample_state = Arr [String (js ''help''), String (js ''ls'')]
   \<and> history (CommandSystem None) = Arr []
   \<and> trim (js ''  a  '') \<noteq> []
   \<and> trim (js ''   '') = []
   \<and> length [String (js ''help''), String (js ''ls'')] \<le> maxHistoryItems
   \<and> addToHistory test_host (js ''   '') sample_state = (Returns (), sample_state)
   \<and> history (snd (addToHistory test_host (js ''  a  '') sample_state)) =
       Arr [String (js ''help''), String (js ''ls''), String (js ''a'')]
   \<and> fst (getPrevious (snd (addToHistory test_host (js ''  a  '') sample_state))) =
       String (js ''a'')
   \<and> history (addToHistory_all test_host [js ''  a  '', js ''   '', js ''cat  x ''] sample_state) =
       Arr [String (js ''help''), String (js ''ls''), String (js ''a''), String (js ''cat  x'')]
   \<and> list_all trimmed_entry (hist_items (history
         (addToHistory_all test_host [js ''  a  '', js ''   '', js ''cat  x ''] (CommandSystem None))))"
proof -
  have 1: "trim (js ''  a  '') = js ''a''" "trim (js ''   '') = []"
    "trim (js ''cat  x '') = js ''cat  x''"
    by (simp_all add: js_def trim_def is_ws_def)
  have 2: "js ''a'' \<noteq> []" "js ''cat  x'' \<noteq> []" by (simp_all add: js_def)
  have 3: "history sample_state = Arr [String (js ''help''), String (js ''ls'')]"
    by (simp add: sample_state_def)
  have 4: "history (CommandSystem None) = Arr []"
    by (simp add: CommandSystem_def)
  show ?thesis
    using added_entry_is_trimmed [OF 3, of "js ''  a  ''" test_host
        "[js ''  a  '', js ''   '', js ''cat  x '']"]
      added_entry_is_trimmed [OF 3, of "js ''   ''" test_host "[]"]
      added_entry_is_trimmed [OF 4, of "js ''   ''" test_host
        "[js ''  a  '', js ''   '', js ''cat  x '']"] 3 4
    by (simp add: 1 2 maxHistoryItems_def stored_entries_def slice_last_def)
qed

text \<open>
  C10 as stated fails. \<open>loadHistory\<close> keeps what the store holds: with a stored array of
  an untrimmed string, a number and the empty string, the list after \<open>init\<close> and after
  adding \<open>a\<close> still has those three entries, so not every entry of the list is a non-empty
  trimmed string. A blank input appends nothing, and on a string history the call throws
  and appends nothing.
\<close>

theorem loaded_entries_counterexample:
  "history (init stale_host (CommandSystem (Some (js ''saved'')))) =
     Arr [String (js '' x ''), Number (Finite 5 0), String []]
   \<and> history (snd (addToHistory stale_host (js ''  a  '')
        (init stale_host (CommandSystem (Some (js ''saved'')))))) =
     Arr [String (js '' x ''), Number (Finite 5 0), String [], String (js ''a'')]
   \<and> \<not> list_all trimmed_entry
        [String (js '' x ''), Number (Finite 5 0), String [], String (js ''a'')]
   \<and> addToHistory test_host (js ''   '') sample_state = (Returns (), sample_state)
   \<and> addToHistory test_host (js ''  a  '') string_state =
       (Throws (js ''this.history.push is not a function''), string_state)"
proof -
  have 1: "trim (js ''  a  '') = js ''a''" "trim (js ''   '') = []"
    by (simp_all add: js_def trim_def is_ws_def)
  have 2: "js ''a'' \<noteq> []" "js ''saved'' \<noteq> []" by (simp_all add: js_def)
  have 3: "history (init stale_host (CommandSystem (Some (js ''saved'')))) =
     Arr [String (js '' x ''), Number (Finite 5 0), String []]"
    by (simp add: init_def loadHistory_def CommandSystem_def stale_host_def test_host_def 2
        slice_last_def maxHistoryItems_def)
  have 4: "history (snd (addToHistory stale_host (js ''  a  '')
        (init stale_host (CommandSystem (Some (js ''saved'')))))) =
     Arr [String (js '' x ''), Number (Finite 5 0), String [], String (js ''a'')]"
    using addToHistory_array [OF 3, of "js ''  a  ''" stale_host]
    by (simp add: 1 2 maxHistoryItems_def)
  have 5: "\<not> list_all trimmed_entry
        [String (js '' x ''), Number (Finite 5 0), String [], String (js ''a'')]"
    by simp
  have 6: "addToHistory test_host (js ''   '') sample_state = (Returns (), sample_state)"
    by (simp add: addToHistory_def 1)
  have 7: "addToHistory test_host (js ''  a  '') string_state =
       (Throws (js ''this.history.push is not a function''), string_state)"
    by (simp add: addToHistory_def string_state_def test_host_def js_def trim_def is_ws_def)
  from 3 4 5 6 7 show ?thesis by blast
qed

end
